theory Spec2Isabelle
  imports Main
begin

section \<open>Errors\<close>

text \<open>
  The exceptions the two modules can raise, each carrying what Python attaches to it:
  the missing key of a \<open>KeyError\<close>, the message of a \<open>ValueError\<close> or of a failed
  \<open>assert\<close>, the variable of an \<open>UnboundLocalError\<close>. \<open>FrameworkError\<close> stands for
  whatever a call into the machine-learning framework raises.
\<close>

datatype error =
    KeyError string
  | ValueError string
  | AssertionError string
  | UnboundLocalError string
  | AttributeError string
  | TypeError string
  | FrameworkError string

section \<open>Record decoder (preprocessing/decode\_example.py)\<close>

subsection \<open>Schema\<close>

datatype dtype = tf_int64 | tf_float32 | tf_string

datatype feature_spec = FixedLenFeature dtype | VarLenFeature dtype

text \<open>
  The dictionary literal of lines 18 to 46, in the order of the source. Every fixed-length
  entry has the scalar shape \<open>[]\<close>.
\<close>

definition schema :: "(string \<times> feature_spec) list" where
  "schema =
   [(''image/height'', FixedLenFeature tf_int64),
    (''image/width'', FixedLenFeature tf_int64),
    (''image/colorspace'', FixedLenFeature tf_string),
    (''image/channels'', FixedLenFeature tf_int64),
    (''image/format'', FixedLenFeature tf_string),
    (''image/filename'', FixedLenFeature tf_string),
    (''image/id'', FixedLenFeature tf_string),
    (''image/encoded'', FixedLenFeature tf_string),
    (''image/extra'', FixedLenFeature tf_string),
    (''image/class/label'', FixedLenFeature tf_int64),
    (''image/class/text'', FixedLenFeature tf_string),
    (''image/class/conf'', FixedLenFeature tf_float32),
    (''image/object/bbox/xmin'', VarLenFeature tf_float32),
    (''image/object/bbox/xmax'', VarLenFeature tf_float32),
    (''image/object/bbox/ymin'', VarLenFeature tf_float32),
    (''image/object/bbox/ymax'', VarLenFeature tf_float32),
    (''image/object/bbox/label'', VarLenFeature tf_int64),
    (''image/object/bbox/text'', VarLenFeature tf_string),
    (''image/object/bbox/conf'', VarLenFeature tf_float32),
    (''image/object/bbox/score'', VarLenFeature tf_float32),
    (''image/object/parts/x'', VarLenFeature tf_float32),
    (''image/object/parts/y'', VarLenFeature tf_float32),
    (''image/object/parts/v'', VarLenFeature tf_int64),
    (''image/object/parts/score'', VarLenFeature tf_float32),
    (''image/object/count'', FixedLenFeature tf_int64),
    (''image/object/area'', VarLenFeature tf_float32),
    (''image/object/id'', VarLenFeature tf_string)]"

definition recognized :: "string \<Rightarrow> bool" where
  "recognized k = (map_of schema k \<noteq> None)"

subsection \<open>Values\<close>

text \<open>
  What the framework's parser hands back for one feature: a dense tensor or a sparse
  tensor with its three components. The tensors themselves are of an arbitrary type \<open>'v\<close>.
\<close>

datatype 'v tf_value = Tensor 'v | SparseTensor 'v 'v 'v

text \<open>\<open>d[k]\<close> on a dictionary: a missing key raises \<open>KeyError\<close>.\<close>

definition getitem :: "(string \<rightharpoonup> 'a) \<Rightarrow> string \<Rightarrow> error + 'a" where
  "getitem d k = (case d k of None \<Rightarrow> Inl (KeyError k) | Some v \<Rightarrow> Inr v)"

text \<open>The attribute \<open>.values\<close>: only a sparse tensor has it.\<close>

fun values_attr :: "'v tf_value \<Rightarrow> error + 'v tf_value" where
  "values_attr (SparseTensor i v s) = Inr (Tensor v)"
| "values_attr (Tensor t) = Inl (AttributeError ''values'')"

text \<open>
  \<open>tf.image.decode_jpeg(x, channels=c)\<close>: the framework's decoder \<open>dj\<close> is a parameter;
  it takes a dense tensor.
\<close>

fun decode_jpeg_call :: "('v \<Rightarrow> nat \<Rightarrow> 'v) \<Rightarrow> 'v tf_value \<Rightarrow> nat \<Rightarrow> error + 'v tf_value" where
  "decode_jpeg_call dj (Tensor t) c = Inr (Tensor (dj t c))"
| "decode_jpeg_call dj (SparseTensor i v s) c = Inl (TypeError ''decode_jpeg'')"

definition bind :: "error + 'a \<Rightarrow> ('a \<Rightarrow> error + 'b) \<Rightarrow> error + 'b" where
  "bind r f = (case r of Inl e \<Rightarrow> Inl e | Inr x \<Rightarrow> f x)"

subsection \<open>The two loops\<close>

text \<open>
  Lines 16 to 46: every requested key is looked up in the schema literal; the first key
  that is not there raises \<open>KeyError\<close>.
\<close>

fun build_feature_map ::
  "(string \<times> string) list \<Rightarrow> (string \<rightharpoonup> feature_spec) \<Rightarrow> error + (string \<rightharpoonup> feature_spec)" where
  "build_feature_map [] feature_map = Inr feature_map"
| "build_feature_map ((feature_key, feature_name) # rest) feature_map =
     (case map_of schema feature_key of
        None \<Rightarrow> Inl (KeyError feature_key)
      | Some spec \<Rightarrow> build_feature_map rest (feature_map(feature_key \<mapsto> spec)))"

text \<open>
  The body of the second loop, lines 57 to 113: the value the \<open>if\<close>/\<open>elif\<close> chain assigns
  for one key. \<open>Inr None\<close> is the fall-through of the chain, where nothing is assigned.
\<close>

definition decode_key ::
  "('v \<Rightarrow> nat \<Rightarrow> 'v) \<Rightarrow> bool \<Rightarrow> (string \<rightharpoonup> 'v tf_value) \<Rightarrow> string \<Rightarrow> error + 'v tf_value option" where
  "decode_key dj decode_image features feature_key =
    (if feature_key = ''image/height'' then bind (getitem features feature_key) (\<lambda>v. Inr (Some v))
     else if feature_key = ''image/width'' then bind (getitem features feature_key) (\<lambda>v. Inr (Some v))
     else if feature_key = ''image/colorspace'' then bind (getitem features feature_key) (\<lambda>v. Inr (Some v))
     else if feature_key = ''image/channels'' then bind (getitem features feature_key) (\<lambda>v. Inr (Some v))
     else if feature_key = ''image/format'' then bind (getitem features feature_key) (\<lambda>v. Inr (Some v))
     else if feature_key = ''image/filename'' then bind (getitem features feature_key) (\<lambda>v. Inr (Some v))
     else if feature_key = ''image/id'' then bind (getitem features feature_key) (\<lambda>v. Inr (Some v))
     else if feature_key = ''image/encoded'' then
       (if decode_image
        then bind (bind (getitem features feature_key) (\<lambda>v. decode_jpeg_call dj v 3)) (\<lambda>v. Inr (Some v))
        else bind (getitem features feature_key) (\<lambda>v. Inr (Some v)))
     else if feature_key = ''image/extra'' then bind (getitem features feature_key) (\<lambda>v. Inr (Some v))
     else if feature_key = ''image/class/label'' then bind (getitem features feature_key) (\<lambda>v. Inr (Some v))
     else if feature_key = ''image/class/text'' then bind (getitem features feature_key) (\<lambda>v. Inr (Some v))
     else if feature_key = ''image/class/conf'' then bind (getitem features feature_key) (\<lambda>v. Inr (Some v))
     else if feature_key = ''image/object/bbox/xmin'' then
       bind (bind (getitem features feature_key) values_attr) (\<lambda>v. Inr (Some v))
     else if feature_key = ''image/object/bbox/xmax'' then
       bind (bind (getitem features feature_key) values_attr) (\<lambda>v. Inr (Some v))
     else if feature_key = ''image/object/bbox/ymin'' then
       bind (bind (getitem features feature_key) values_attr) (\<lambda>v. Inr (Some v))
     else if feature_key = ''image/object/bbox/ymax'' then
       bind (bind (getitem features feature_key) values_attr) (\<lambda>v. Inr (Some v))
     else if feature_key = ''image/object/bbox/label'' then
       bind (bind (getitem features feature_key) values_attr) (\<lambda>v. Inr (Some v))
     else if feature_key = ''image/object/bbox/text'' then
       bind (bind (getitem features feature_key) values_attr) (\<lambda>v. Inr (Some v))
     else if feature_key = ''image/object/bbox/conf'' then
       bind (bind (getitem features feature_key) values_attr) (\<lambda>v. Inr (Some v))
     else if feature_key = ''image/object/bbox/score'' then
       bind (bind (getitem features feature_key) values_attr) (\<lambda>v. Inr (Some v))
     else if feature_key = ''image/object/parts/x'' then
       bind (bind (getitem features feature_key) values_attr) (\<lambda>v. Inr (Some v))
     else if feature_key = ''image/object/parts/y'' then
       bind (bind (getitem features feature_key) values_attr) (\<lambda>v. Inr (Some v))
     else if feature_key = ''image/object/parts/v'' then
       bind (bind (getitem features feature_key) values_attr) (\<lambda>v. Inr (Some v))
     else if feature_key = ''image/object/parts/score'' then
       bind (bind (getitem features feature_key) values_attr) (\<lambda>v. Inr (Some v))
     else if feature_key = ''image/object/count'' then bind (getitem features feature_key) (\<lambda>v. Inr (Some v))
     else if feature_key = ''image/object/area'' then
       bind (bind (getitem features feature_key) values_attr) (\<lambda>v. Inr (Some v))
     else if feature_key = ''image/object/id'' then
       bind (bind (getitem features feature_key) values_attr) (\<lambda>v. Inr (Some v))
     else Inr None)"

text \<open>
  Lines 54 to 115: the loop over the requested pairs, with the dictionary
  \<open>parsed_features\<close> as accumulator. An assignment to a name that is already bound
  replaces the earlier value, as in Python.
\<close>

fun fetch_loop ::
  "('v \<Rightarrow> nat \<Rightarrow> 'v) \<Rightarrow> bool \<Rightarrow> (string \<rightharpoonup> 'v tf_value) \<Rightarrow> (string \<times> string) list
     \<Rightarrow> (string \<rightharpoonup> 'v tf_value) \<Rightarrow> error + (string \<rightharpoonup> 'v tf_value)" where
  "fetch_loop dj decode_image features [] parsed_features = Inr parsed_features"
| "fetch_loop dj decode_image features ((feature_key, feature_name) # rest) parsed_features =
     (case decode_key dj decode_image features feature_key of
        Inl e \<Rightarrow> Inl e
      | Inr None \<Rightarrow> fetch_loop dj decode_image features rest parsed_features
      | Inr (Some v) \<Rightarrow>
          fetch_loop dj decode_image features rest (parsed_features(feature_name \<mapsto> v)))"

text \<open>
  The function. \<open>parse\<close> is the framework's \<open>tf.parse_single_example\<close>, a parameter: it
  gets the serialized record and the feature map and returns the parsed features or
  raises. \<open>dj\<close> is the framework's image decoder.
\<close>

definition decode_serialized_example ::
  "('ex \<Rightarrow> (string \<rightharpoonup> feature_spec) \<Rightarrow> error + (string \<rightharpoonup> 'v tf_value)) \<Rightarrow> ('v \<Rightarrow> nat \<Rightarrow> 'v)
     \<Rightarrow> 'ex \<Rightarrow> (string \<times> string) list \<Rightarrow> bool \<Rightarrow> error + (string \<rightharpoonup> 'v tf_value)" where
  "decode_serialized_example parse dj serialized_example features_to_fetch decode_image =
     bind (build_feature_map features_to_fetch Map.empty) (\<lambda>feature_map.
     bind (parse serialized_example feature_map) (\<lambda>features.
     fetch_loop dj decode_image features features_to_fetch Map.empty))"

text \<open>The call with \<open>decode_image\<close> left out: the default of line 7 is \<open>True\<close>.\<close>

definition decode_serialized_example_default ::
  "('ex \<Rightarrow> (string \<rightharpoonup> feature_spec) \<Rightarrow> error + (string \<rightharpoonup> 'v tf_value)) \<Rightarrow> ('v \<Rightarrow> nat \<Rightarrow> 'v)
     \<Rightarrow> 'ex \<Rightarrow> (string \<times> string) list \<Rightarrow> error + (string \<rightharpoonup> 'v tf_value)" where
  "decode_serialized_example_default parse dj serialized_example features_to_fetch =
     decode_serialized_example parse dj serialized_example features_to_fetch True"

subsection \<open>What the contract of the decoder says, for comparison\<close>

text \<open>
  The value the decoder is documented to return for one schema key, read off the schema
  table rather than the conditional chain: a fixed-length field is the parsed tensor
  itself, decoded as an image for the image-bytes field when decoding is on; a
  variable-length field is the flat sequence of values of the sparse parse result.
\<close>

definition spec_decoded_value ::
  "('v \<Rightarrow> nat \<Rightarrow> 'v) \<Rightarrow> bool \<Rightarrow> (string \<rightharpoonup> 'v tf_value) \<Rightarrow> string \<Rightarrow> error + 'v tf_value" where
  "spec_decoded_value dj decode_image features k =
     (case map_of schema k of
        None \<Rightarrow> Inl (KeyError k)
      | Some (FixedLenFeature d) \<Rightarrow>
          (if k = ''image/encoded'' \<and> decode_image
           then bind (getitem features k) (\<lambda>v. decode_jpeg_call dj v 3)
           else getitem features k)
      | Some (VarLenFeature d) \<Rightarrow> bind (getitem features k) values_attr)"

text \<open>
  The variable-length keys: bounding-box coordinates, labels, text, confidence and score,
  part coordinates, visibility and score, per-instance area and id.
\<close>

definition variable_length_keys :: "string list" where
  "variable_length_keys =
    [''image/object/bbox/xmin'', ''image/object/bbox/xmax'', ''image/object/bbox/ymin'',
     ''image/object/bbox/ymax'', ''image/object/bbox/label'', ''image/object/bbox/text'',
     ''image/object/bbox/conf'', ''image/object/bbox/score'', ''image/object/parts/x'',
     ''image/object/parts/y'', ''image/object/parts/v'', ''image/object/parts/score'',
     ''image/object/area'', ''image/object/id'']"

text \<open>
  The feature map that lines 16 to 46 build for a request whose keys are all in the
  schema: the schema restricted to the requested keys.
\<close>

definition requested_feature_map :: "(string \<times> string) list \<Rightarrow> (string \<rightharpoonup> feature_spec)" where
  "requested_feature_map fs = map_of schema |` (fst ` set fs)"

text \<open>
  The schema key of the last requested pair that carries the output name \<open>n\<close>: the pair
  whose assignment to \<open>parsed_features[n]\<close> is the one that stays.
\<close>

definition last_key_for :: "(string \<times> string) list \<Rightarrow> string \<Rightarrow> string option" where
  "last_key_for fs n = map_of (rev (map prod.swap fs)) n"

text \<open>
  The documented result of the framework's parser, for the requested keys: a dense tensor
  for a fixed-length feature, a sparse tensor for a variable-length one.
\<close>

definition well_parsed :: "(string \<rightharpoonup> 'v tf_value) \<Rightarrow> (string \<times> string) list \<Rightarrow> bool" where
  "well_parsed F fs =
     list_all (\<lambda>(k, n).
       case map_of schema k of
         None \<Rightarrow> False
       | Some (FixedLenFeature d) \<Rightarrow> (case F k of Some (Tensor t) \<Rightarrow> True | _ \<Rightarrow> False)
       | Some (VarLenFeature d) \<Rightarrow> (case F k of Some (SparseTensor i v s) \<Rightarrow> True | _ \<Rightarrow> False)) fs"

section \<open>Exporter (export.py)\<close>

subsection \<open>Paths\<close>

text \<open>
  \<open>str(export_version)\<close> and \<open>"%d" % (export_version,)\<close>: the decimal numeral of an
  integer.
\<close>

fun str_nat :: "nat \<Rightarrow> string" where
  "str_nat n = (if n < 10 then [''0123456789'' ! n] else str_nat (n div 10) @ [''0123456789'' ! (n mod 10)])"

declare str_nat.simps [simp del]

definition str_int :: "int \<Rightarrow> string" where
  "str_int i = (if i < 0 then CHR ''-'' # str_nat (nat (- i)) else str_nat (nat i))"

text \<open>\<open>os.path.join\<close> of two components, on a POSIX system.\<close>

definition path_join :: "string \<Rightarrow> string \<Rightarrow> string" where
  "path_join a b =
     (if b \<noteq> [] \<and> hd b = CHR ''/'' then b
      else if a = [] \<or> last a = CHR ''/'' then a @ b
      else a @ ''/'' @ b)"

subsection \<open>The world around the exporter\<close>

text \<open>
  The calls into the framework, the converters and the file system that can raise. The
  exporter handles none of their exceptions, so each one ends the call:
  \<^item> \<open>BuildGraph\<close>: the construction of the inference graph, lines 75 to 201;
  \<^item> \<open>CreateSession\<close>: lines 213 to 220;
  \<^item> \<open>Restore p\<close>: initialising the variables and restoring them from checkpoint \<open>p\<close>;
  \<^item> \<open>SavedModelBuilder p\<close>: creating the bundle writer for directory \<open>p\<close>, lines 232 to 265;
  \<^item> \<open>BuilderSave p\<close>: writing the bundle, lines 267 to 273;
  \<^item> \<open>FreezeGraph\<close>: freezing and optimising the graph, lines 284 to 308;
  \<^item> \<open>FileWrite p\<close>: writing to the file \<open>p\<close> once it is open;
  \<^item> \<open>TocoConvert\<close>: the accelerator-format conversion, lines 335 and 336;
  \<^item> \<open>CoremlConvert p q\<close>: the embedded-platform conversion of \<open>p\<close> into \<open>q\<close>, lines 359 to 364.
\<close>

datatype call =
    BuildGraph
  | CreateSession
  | Restore string
  | SavedModelBuilder string
  | BuilderSave string
  | FreezeGraph
  | FileWrite string
  | TocoConvert
  | CoremlConvert string string

text \<open>
  What a call leaves behind, in order: directories made, the framework's log line, files
  and serving bundles written. Console output is not recorded.
\<close>

datatype effect = Makedirs string | LogInfo string | WriteFile string | WriteBundle string

text \<open>
  The answers of the environment: the two file-system tests, the framework's search for
  the latest checkpoint of a directory, whether \<open>import tfcoreml\<close> succeeds, and which
  calls raise.
\<close>

record env =
  os_path_exists :: "string \<Rightarrow> bool"
  os_path_isdir :: "string \<Rightarrow> bool"
  latest_checkpoint :: "string \<Rightarrow> string option"
  tfcoreml_importable :: bool
  raises :: "call \<Rightarrow> error option"

text \<open>
  The arguments of \<open>export\<close>, lines 47 to 52. The configuration \<open>cfg\<close> is read only by the
  graph construction and by the conversions, which are calls of the environment.
\<close>

record export_args =
  checkpoint_path :: string
  export_dir :: string
  export_version :: int
  export_for_serving :: bool
  export_tflite :: bool
  export_coreml :: bool
  add_preprocess_step :: bool
  output_classes :: bool
  class_names :: "string list option"
  batch_size :: "int option"
  raveled_input :: bool

text \<open>
  The two local variables that the last part of \<open>export\<close> reads after the graph scope.
  \<open>None\<close> is a variable that was never assigned.
\<close>

record locals =
  save_dir :: "string option"
  save_path :: "string option"

subsection \<open>The steps of export\<close>

text \<open>Lines 203 to 209.\<close>

definition resolve_checkpoint :: "env \<Rightarrow> string \<Rightarrow> error + string" where
  "resolve_checkpoint env cp =
     (if os_path_isdir env cp then
        (case latest_checkpoint env cp of
           None \<Rightarrow> Inl (ValueError (''Unable to find a model checkpoint in the directory '' @ cp))
         | Some p \<Rightarrow> Inr p)
      else Inr cp)"

text \<open>Lines 222 to 275: the serving branch. It assigns \<open>save_path\<close> and never \<open>save_dir\<close>.\<close>

definition export_serving ::
  "env \<Rightarrow> export_args \<Rightarrow> string \<Rightarrow> effect list \<Rightarrow> (error + locals) \<times> effect list" where
  "export_serving env args ckpt log =
     (case raises env (Restore ckpt) of
        Some e \<Rightarrow> (Inl e, log)
      | None \<Rightarrow>
          (let sp = path_join (export_dir args) (str_int (export_version args)) in
           case raises env (SavedModelBuilder sp) of
             Some e \<Rightarrow> (Inl e, log)
           | None \<Rightarrow>
               (case raises env (BuilderSave sp) of
                  Some e \<Rightarrow> (Inl e, log @ [WriteBundle sp])
                | None \<Rightarrow> (Inr \<lparr>save_dir = None, save_path = Some sp\<rparr>, log @ [WriteBundle sp]))))"

text \<open>Lines 324 to 346: the accelerator format, inside the branch of the frozen graph.\<close>

definition export_tflite_step ::
  "env \<Rightarrow> export_args \<Rightarrow> string \<Rightarrow> effect list \<Rightarrow> (error + unit) \<times> effect list" where
  "export_tflite_step env args sd log =
     (if export_tflite args then
        (if batch_size args = None then
           (Inl (AssertionError ''We need a fixed batch size for the tensorflow lite export. (e.g. set --batch_size=1)''), log)
         else
           (case raises env TocoConvert of
              Some e \<Rightarrow> (Inl e, log)
            | None \<Rightarrow>
                (let tflite_save_path = path_join sd ''optimized_model.tflite'' in
                 case raises env (FileWrite tflite_save_path) of
                   Some e \<Rightarrow> (Inl e, log @ [WriteFile tflite_save_path])
                 | None \<Rightarrow> (Inr (), log @ [WriteFile tflite_save_path]))))
      else (Inr (), log))"

text \<open>
  Lines 277 to 346: the branch of the frozen graph. The file \<open>optimized_model.pb\<close> is
  opened and written at lines 316 and 317, before the accelerator format is looked at.
\<close>

definition export_frozen ::
  "env \<Rightarrow> export_args \<Rightarrow> string \<Rightarrow> effect list \<Rightarrow> (error + locals) \<times> effect list" where
  "export_frozen env args ckpt log =
     (case raises env (Restore ckpt) of
        Some e \<Rightarrow> (Inl e, log)
      | None \<Rightarrow>
          (case raises env FreezeGraph of
             Some e \<Rightarrow> (Inl e, log)
           | None \<Rightarrow>
               (let sd = path_join (export_dir args) (str_int (export_version args));
                    log1 = (if \<not> os_path_exists env sd then log @ [Makedirs sd] else log);
                    sp = path_join sd ''optimized_model.pb'';
                    log2 = log1 @ [WriteFile sp]
                in case raises env (FileWrite sp) of
                     Some e \<Rightarrow> (Inl e, log2)
                   | None \<Rightarrow>
                       (case export_tflite_step env args sd log2 of
                          (Inl e, log3) \<Rightarrow> (Inl e, log3)
                        | (Inr u, log3) \<Rightarrow> (Inr \<lparr>save_dir = Some sd, save_path = Some sp\<rparr>, log3)))))"

text \<open>
  Lines 349 to 369: the embedded-platform format, after the graph scope and in either
  mode. The import is tried first, then the two assertions, then \<open>save_dir\<close> is read.
\<close>

definition export_coreml_step ::
  "env \<Rightarrow> export_args \<Rightarrow> locals \<Rightarrow> effect list \<Rightarrow> (error + unit) \<times> effect list" where
  "export_coreml_step env args ls log =
     (if export_coreml args then
        (if \<not> tfcoreml_importable env then
           (Inl (ValueError ''Can't import tfcoreml, so we can't create a coreml model.''), log)
         else if batch_size args = None then
           (Inl (AssertionError ''We need a fixed batch size for the coreml export. (e.g. set --batch_size=1)''), log)
         else if raveled_input args \<noteq> False then
           (Inl (AssertionError ''The input cannot be raveled. CoreML does not support `reshape()`.''), log)
         else
           (case save_dir ls of
              None \<Rightarrow> (Inl (UnboundLocalError ''save_dir''), log)
            | Some sd \<Rightarrow>
                (let coreml_save_path = path_join sd ''optimized_model.mlmodel'' in
                 case save_path ls of
                   None \<Rightarrow> (Inl (UnboundLocalError ''save_path''), log)
                 | Some sp \<Rightarrow>
                     (case raises env (CoremlConvert sp coreml_save_path) of
                        Some e \<Rightarrow> (Inl e, log)
                      | None \<Rightarrow> (Inr (), log @ [WriteFile coreml_save_path])))))
      else (Inr (), log))"

text \<open>Lines 211 to 346: everything in the graph scope that follows the checkpoint.\<close>

definition export_model ::
  "env \<Rightarrow> export_args \<Rightarrow> string \<Rightarrow> effect list \<Rightarrow> (error + locals) \<times> effect list" where
  "export_model env args ckpt log0 =
     (let log1 = log0 @ [LogInfo (''Exporting model: '' @ ckpt)]
      in case raises env CreateSession of
           Some e \<Rightarrow> (Inl e, log1)
         | None \<Rightarrow>
             (if export_for_serving args
              then export_serving env args ckpt log1
              else export_frozen env args ckpt log1))"

text \<open>Lines 71 to 73.\<close>

definition initial_log :: "env \<Rightarrow> export_args \<Rightarrow> effect list" where
  "initial_log env args =
     (if \<not> os_path_exists env (export_dir args) then [Makedirs (export_dir args)] else [])"

text \<open>Lines 71 to 346: the function up to the end of the graph scope.\<close>

definition export_graph_scope :: "env \<Rightarrow> export_args \<Rightarrow> (error + locals) \<times> effect list" where
  "export_graph_scope env args =
     (let log0 = initial_log env args
      in case raises env BuildGraph of
           Some e \<Rightarrow> (Inl e, log0)
         | None \<Rightarrow>
             (case resolve_checkpoint env (checkpoint_path args) of
                Inl e \<Rightarrow> (Inl e, log0)
              | Inr ckpt \<Rightarrow> export_model env args ckpt log0))"

text \<open>The function: its result, and what it left behind.\<close>

definition export :: "env \<Rightarrow> export_args \<Rightarrow> (error + unit) \<times> effect list" where
  "export env args =
     (case export_graph_scope env args of
        (Inl e, log) \<Rightarrow> (Inl e, log)
      | (Inr ls, log) \<Rightarrow> export_coreml_step env args ls log)"

subsection \<open>Reading a run\<close>




text \<open>
  The exception that ends the embedded-platform step when \<open>save_dir\<close> was never assigned:
  the first of the four that applies.
\<close>

definition coreml_failure :: "env \<Rightarrow> export_args \<Rightarrow> error" where
  "coreml_failure env args =
     (if \<not> tfcoreml_importable env then
        ValueError ''Can't import tfcoreml, so we can't create a coreml model.''
      else if batch_size args = None then
        AssertionError ''We need a fixed batch size for the coreml export. (e.g. set --batch_size=1)''
      else if raveled_input args then
        AssertionError ''The input cannot be raveled. CoreML does not support `reshape()`.''
      else UnboundLocalError ''save_dir'')"

subsection \<open>The channels of a preprocessed image\<close>

text \<open>
  The image that \<open>tf.image.decode_image\<close> returns for a still image, inside
  \<open>preprocess_image\<close> (lines 97 to 144): a tensor of rank 3 with its height, its width,
  its number of channels and its values. The test for rank 2 of lines 105 to 109 leaves
  such a tensor as it is.
\<close>

record 'a image =
  img_height :: nat
  img_width :: nat
  img_channels :: nat
  img_pixel :: "nat \<Rightarrow> nat \<Rightarrow> nat \<Rightarrow> 'a"

text \<open>\<open>tf.image.grayscale_to_rgb\<close>: the last axis repeated three times.\<close>

definition grayscale_to_rgb :: "'a image \<Rightarrow> 'a image" where
  "grayscale_to_rgb im =
     im\<lparr>img_channels := 3 * img_channels im,
        img_pixel := (\<lambda>y x c. img_pixel im y x (c mod img_channels im))\<rparr>"

text \<open>\<open>tf.expand_dims(image[:, :, 0], 2)\<close>: the first channel alone.\<close>

definition first_channel :: "'a image \<Rightarrow> 'a image" where
  "first_channel im = im\<lparr>img_channels := 1, img_pixel := (\<lambda>y x c. img_pixel im y x 0)\<rparr>"

text \<open>\<open>image[:, :, :3]\<close>: at most the first three channels.\<close>

definition first_three_channels :: "'a image \<Rightarrow> 'a image" where
  "first_three_channels im = im\<lparr>img_channels := min 3 (img_channels im)\<rparr>"

text \<open>
  Lines 111 to 133. \<open>num_channels\<close> is read once, before the three conditionals, and
  each conditional works on the image the one before it left.
\<close>

definition preprocess_image_channels :: "'a image \<Rightarrow> 'a image" where
  "preprocess_image_channels image0 =
     (let num_channels = img_channels image0;
          image1 = (if num_channels = 1 then grayscale_to_rgb image0 else image0);
          image2 = (if num_channels = 2 then grayscale_to_rgb (first_channel image1) else image1);
          image3 = (if num_channels > 3 then first_three_channels image2 else image2)
      in image3)"

section \<open>Example inputs\<close>

text \<open>
  A parser and an image decoder that build graph nodes, as the framework does when the
  decoder is called while a graph is under construction.
\<close>

datatype node = Parsed string | Indices string | Values string | DenseShape string | DecodeJpeg node nat

fun node_channels :: "node \<Rightarrow> nat" where
  "node_channels (DecodeJpeg b c) = c"
| "node_channels (Parsed k) = 0"
| "node_channels (Indices k) = 0"
| "node_channels (Values k) = 0"
| "node_channels (DenseShape k) = 0"

definition graph_parse :: "string \<Rightarrow> (string \<rightharpoonup> feature_spec) \<Rightarrow> error + (string \<rightharpoonup> node tf_value)" where
  "graph_parse ex fm =
     Inr (\<lambda>k. case fm k of
                None \<Rightarrow> None
              | Some (FixedLenFeature d) \<Rightarrow> Some (Tensor (Parsed k))
              | Some (VarLenFeature d) \<Rightarrow> Some (SparseTensor (Indices k) (Values k) (DenseShape k)))"

definition graph_features :: "(string \<times> string) list \<Rightarrow> (string \<rightharpoonup> node tf_value)" where
  "graph_features fs =
     (\<lambda>k. case requested_feature_map fs k of
                None \<Rightarrow> None
              | Some (FixedLenFeature d) \<Rightarrow> Some (Tensor (Parsed k))
              | Some (VarLenFeature d) \<Rightarrow> Some (SparseTensor (Indices k) (Values k) (DenseShape k)))"

definition two_fields :: "(string \<times> string) list" where
  "two_fields = [(''image/encoded'', ''image''), (''image/object/bbox/xmin'', ''xmin'')]"

definition same_name_twice :: "(string \<times> string) list" where
  "same_name_twice = [(''image/height'', ''x''), (''image/width'', ''x'')]"

text \<open>
  An empty export directory, a checkpoint given as a file prefix, every call succeeding;
  and the arguments of the second example of the module's header.
\<close>

definition fresh_env :: env where
  "fresh_env = \<lparr>os_path_exists = (\<lambda>p. False), os_path_isdir = (\<lambda>p. False),
     latest_checkpoint = (\<lambda>p. None), tfcoreml_importable = True, raises = (\<lambda>c. None)\<rparr>"

definition mobile_args :: export_args where
  "mobile_args = \<lparr>checkpoint_path = ''model.ckpt-399739'', export_dir = ''export'', export_version = 1,
     export_for_serving = False, export_tflite = False, export_coreml = False,
     add_preprocess_step = False, output_classes = False, class_names = None,
     batch_size = None, raveled_input = False\<rparr>"



section \<open>Properties of the record decoder\<close>

lemma recognized_iff:
  "recognized k \<longleftrightarrow> k \<in> set (map fst schema)"
  by (simp add: recognized_def map_of_eq_None_iff)

lemma keys_cases:
  "k \<in> set (map fst schema) \<Longrightarrow> 
   k = ''image/height'' \<or> k = ''image/width'' \<or> k = ''image/colorspace'' \<or> k = ''image/channels'' \<or>
   k = ''image/format'' \<or> k = ''image/filename'' \<or> k = ''image/id'' \<or> k = ''image/encoded'' \<or>
   k = ''image/extra'' \<or> k = ''image/class/label'' \<or> k = ''image/class/text'' \<or> k = ''image/class/conf'' \<or>
   k = ''image/object/bbox/xmin'' \<or> k = ''image/object/bbox/xmax'' \<or> k = ''image/object/bbox/ymin'' \<or>
   k = ''image/object/bbox/ymax'' \<or> k = ''image/object/bbox/label'' \<or> k = ''image/object/bbox/text'' \<or>
   k = ''image/object/bbox/conf'' \<or> k = ''image/object/bbox/score'' \<or> k = ''image/object/parts/x'' \<or>
   k = ''image/object/parts/y'' \<or> k = ''image/object/parts/v'' \<or> k = ''image/object/parts/score'' \<or>
   k = ''image/object/count'' \<or> k = ''image/object/area'' \<or> k = ''image/object/id''"
  by (simp add: schema_def) 

lemma decode_key_unrecognized:
  "\<not> recognized k \<Longrightarrow> decode_key dj di F k = Inr None"
  by (simp add: recognized_iff schema_def decode_key_def)

lemma bind_assoc_Some: "bind (bind r f) g = bind r (\<lambda>x. bind (f x) g)"
  by (simp add: bind_def split: sum.splits)

lemma decode_key_recognized:
  assumes "recognized k"
  shows "decode_key dj di F k = bind (spec_decoded_value dj di F k) (\<lambda>v. Inr (Some v))"
proof -
  from assms have "k \<in> set (map fst schema)" by (simp add: recognized_iff)
  from keys_cases[OF this] show ?thesis
    by (elim disjE) (simp_all add: decode_key_def spec_decoded_value_def schema_def)
qed


lemma build_feature_map_ok:
  "list_all (\<lambda>(k, n). recognized k) fs \<Longrightarrow>
   build_feature_map fs fm = Inr (\<lambda>k. if k \<in> fst ` set fs then map_of schema k else fm k)"
proof (induction fs arbitrary: fm)
  case Nil
  then show ?case by simp
next
  case (Cons p rest)
  obtain k n where p: "p = (k, n)" by (cases p)
  from Cons.prems p obtain spec where spec: "map_of schema k = Some spec"
    by (auto simp: recognized_def)
  from Cons.prems have rest: "list_all (\<lambda>(k, n). recognized k) rest" by simp
  have "build_feature_map (p # rest) fm = build_feature_map rest (fm(k \<mapsto> spec))"
    using p spec by simp
  also have "\<dots> = Inr (\<lambda>k'. if k' \<in> fst ` set rest then map_of schema k' else (fm(k \<mapsto> spec)) k')"
    by (rule Cons.IH[OF rest])
  also have "\<dots> = Inr (\<lambda>k'. if k' \<in> fst ` set (p # rest) then map_of schema k' else fm k')"
    using spec p by (auto intro!: ext)
  finally show ?case .
qed

lemma build_feature_map_empty:
  "list_all (\<lambda>(k, n). recognized k) fs \<Longrightarrow>
   build_feature_map fs Map.empty = Inr (requested_feature_map fs)"
  by (simp add: build_feature_map_ok requested_feature_map_def restrict_map_def)

lemma build_feature_map_fail:
  "find (\<lambda>k. \<not> recognized k) (map fst fs) = Some k \<Longrightarrow>
   build_feature_map fs fm = Inl (KeyError k)"
proof (induction fs arbitrary: fm)
  case Nil
  then show ?case by simp
next
  case (Cons p rest)
  obtain k' n where p: "p = (k', n)" by (cases p)
  show ?case
  proof (cases "recognized k'")
    case True
    then obtain spec where "map_of schema k' = Some spec" by (auto simp: recognized_def)
    moreover from Cons.prems p True have "find (\<lambda>k. \<not> recognized k) (map fst rest) = Some k" by simp
    ultimately show ?thesis using Cons.IH p by simp
  next
    case False
    with Cons.prems p have "k = k'" by simp
    with False p show ?thesis by (simp add: recognized_def)
  qed
qed

lemma build_feature_map_Inr_recognized:
  "build_feature_map fs fm = Inr fm' \<Longrightarrow> list_all (\<lambda>(k, n). recognized k) fs"
proof (induction fs arbitrary: fm)
  case Nil
  then show ?case by simp
next
  case (Cons p rest)
  obtain k n where p: "p = (k, n)" by (cases p)
  from Cons.prems p obtain spec where spec: "map_of schema k = Some spec"
    and rest: "build_feature_map rest (fm(k \<mapsto> spec)) = Inr fm'"
    by (auto split: option.splits)
  from Cons.IH[OF rest] spec p show ?case by (simp add: recognized_def)
qed

lemma decode_key_recognized_not_skipped:
  "recognized k \<Longrightarrow> decode_key dj di F k \<noteq> Inr None"
  by (simp add: decode_key_recognized bind_def split: sum.splits)

lemma fetch_loop_value:
  assumes "fetch_loop dj di F fs acc = Inr m" and "list_all (\<lambda>(k, n). recognized k) fs"
  shows "case last_key_for fs n of
           None \<Rightarrow> m n = acc n
         | Some k \<Rightarrow> decode_key dj di F k = Inr (m n)"
  using assms
proof (induction fs arbitrary: acc)
  case Nil
  then show ?case by (simp add: last_key_for_def)
next
  case (Cons p rest)
  obtain k0 n0 where p: "p = (k0, n0)" by (cases p)
  from Cons.prems(2) p have rk: "recognized k0" and rrest: "list_all (\<lambda>(k, n). recognized k) rest"
    by simp_all
  from Cons.prems(1) p decode_key_recognized_not_skipped[OF rk, of dj di F]
  obtain v0 where v0: "decode_key dj di F k0 = Inr (Some v0)"
    and rest: "fetch_loop dj di F rest (acc(n0 \<mapsto> v0)) = Inr m"
    by (auto split: sum.splits option.splits)
  note IH = Cons.IH[OF rest rrest]
  show ?case
  proof (cases "last_key_for rest n")
    case (Some k)
    with IH p show ?thesis by (simp add: last_key_for_def map_add_def)
  next
    case None
    with IH have "m n = (acc(n0 \<mapsto> v0)) n" by simp
    with None p v0 show ?thesis by (auto simp: last_key_for_def map_add_def)
  qed
qed

lemma fetch_loop_succeeds:
  "list_all (\<lambda>(k, n). \<exists>v. decode_key dj di F k = Inr (Some v)) fs \<Longrightarrow>
   \<exists>m. fetch_loop dj di F fs acc = Inr m"
proof (induction fs arbitrary: acc)
  case Nil
  then show ?case by simp
next
  case (Cons p rest)
  obtain k n where p: "p = (k, n)" by (cases p)
  from Cons.prems p obtain v where "decode_key dj di F k = Inr (Some v)" by auto
  moreover from Cons.prems have "list_all (\<lambda>(k, n). \<exists>v. decode_key dj di F k = Inr (Some v)) rest"
    by simp
  ultimately show ?case using Cons.IH p by simp
qed

lemma last_key_for_None: "last_key_for fs n = None \<longleftrightarrow> n \<notin> snd ` set fs"
  by (force simp: last_key_for_def map_of_eq_None_iff)

lemma last_key_for_in_set: "last_key_for fs n = Some k \<Longrightarrow> (k, n) \<in> set fs"
  unfolding last_key_for_def by (drule map_of_SomeD) auto

lemma last_key_for_distinct:
  "distinct (map snd fs) \<Longrightarrow> (k, n) \<in> set fs \<Longrightarrow> last_key_for fs n = Some k"
  unfolding last_key_for_def
  by (rule map_of_is_SomeI) (auto simp: rev_map[symmetric] comp_def distinct_rev)


lemma decode_result:
  assumes "decode_serialized_example parse dj ex fs di = Inr m"
      and "parse ex (requested_feature_map fs) = Inr F"
  shows "case last_key_for fs n of
           None \<Rightarrow> m n = None
         | Some k \<Rightarrow> decode_key dj di F k = Inr (m n)"
proof -
  from assms(1) obtain fm where fm: "build_feature_map fs Map.empty = Inr fm"
    by (auto simp: decode_serialized_example_def bind_def split: sum.splits)
  then have rec: "list_all (\<lambda>(k, n). recognized k) fs" by (rule build_feature_map_Inr_recognized)
  with fm have "fm = requested_feature_map fs" by (simp add: build_feature_map_empty)
  with assms fm have "fetch_loop dj di F fs Map.empty = Inr m"
    by (simp add: decode_serialized_example_def bind_def)
  from fetch_loop_value[OF this rec, of n] show ?thesis by (simp split: option.splits)
qed

lemma well_parsed_value:
  "well_parsed F fs \<Longrightarrow> (k, n) \<in> set fs \<Longrightarrow>
   recognized k \<and> (\<exists>v. spec_decoded_value dj di F k = Inr v)"
  by (auto simp: well_parsed_def list_all_iff spec_decoded_value_def getitem_def bind_def recognized_def
      split: option.splits feature_spec.splits tf_value.splits)

lemma well_parsed_recognized: "well_parsed F fs \<Longrightarrow> list_all (\<lambda>(k, n). recognized k) fs"
  using well_parsed_value[of F fs] by (auto simp: list_all_iff)

lemma decode_succeeds:
  assumes "parse ex (requested_feature_map fs) = Inr F" and "well_parsed F fs"
  shows "\<exists>m. decode_serialized_example parse dj ex fs di = Inr m"
proof -
  have rec: "list_all (\<lambda>(k, n). recognized k) fs" using assms(2) by (rule well_parsed_recognized)
  have "list_all (\<lambda>(k, n). \<exists>v. decode_key dj di F k = Inr (Some v)) fs"
    unfolding list_all_iff
  proof (clarify)
    fix k n assume "(k, n) \<in> set fs"
    from well_parsed_value[OF assms(2) this, of dj di]
    show "\<exists>v. decode_key dj di F k = Inr (Some v)"
      by (auto simp: decode_key_recognized bind_def)
  qed
  from fetch_loop_succeeds[OF this, of Map.empty] rec assms(1) show ?thesis
    by (simp add: decode_serialized_example_def build_feature_map_empty bind_def)
qed

text \<open>
  Claim C1. A request that contains a key outside the schema makes the call fail with a
  lookup error: the result is \<open>KeyError\<close> of an unrecognized requested key (the first one
  in the list), whatever the parser and the other arguments are, so no mapping and no
  default value comes back.
\<close>
theorem unrecognized_key_raises_KeyError:
  assumes "(k, n) \<in> set features_to_fetch" and "\<not> recognized k"
  shows "\<exists>k'. k' \<in> fst ` set features_to_fetch \<and> \<not> recognized k' \<and>
           find (\<lambda>k. \<not> recognized k) (map fst features_to_fetch) = Some k' \<and>
           decode_serialized_example parse dj ex features_to_fetch di = Inl (KeyError k')"
proof -
  from assms(1) have "k \<in> set (map fst features_to_fetch)" by force
  with assms(2) have "find (\<lambda>k. \<not> recognized k) (map fst features_to_fetch) \<noteq> None"
    unfolding find_None_iff by blast
  then obtain k' where k': "find (\<lambda>k. \<not> recognized k) (map fst features_to_fetch) = Some k'"
    by auto
  then have "k' \<in> fst ` set features_to_fetch" and "\<not> recognized k'"
    by (auto simp: find_Some_iff)
  moreover from k' have "decode_serialized_example parse dj ex features_to_fetch di = Inl (KeyError k')"
    by (simp add: decode_serialized_example_def build_feature_map_fail bind_def)
  ultimately show ?thesis using k' by blast
qed

text \<open>The request for the height and for a key \<open>image/depth\<close> that the schema does not have.\<close>
theorem unrecognized_key_raises_KeyError_witness:
  "decode_serialized_example graph_parse DecodeJpeg ''record''
     [(''image/height'', ''h''), (''image/depth'', ''d'')] True = Inl (KeyError ''image/depth'')"
  using unrecognized_key_raises_KeyError[of "''image/depth''" "''d''" "[(''image/height'', ''h''), (''image/depth'', ''d'')]"
      graph_parse DecodeJpeg "''record''" True]
  by (auto simp: recognized_def schema_def)

text \<open>
  Claim C6, as amended. When every requested key is in the schema and the framework's
  parser returns its documented result for the requested feature map, the call returns a
  mapping whose keys are exactly the requested output names. Each output name is bound to
  the decoded value of the schema key of the last requested pair that carries the name;
  so when the output names are pairwise distinct, every requested pair has its decoded
  value in the result and no requested key is left out.
\<close>
theorem requested_names_bound_to_decoded_values:
  assumes "list_all (\<lambda>(k, n). recognized k) fs"
      and "parse ex (requested_feature_map fs) = Inr F"
      and "well_parsed F fs"
  shows "\<exists>m. decode_serialized_example parse dj ex fs di = Inr m \<and>
             dom m = snd ` set fs \<and>
             (\<forall>n k. last_key_for fs n = Some k \<longrightarrow>
                (\<exists>v. spec_decoded_value dj di F k = Inr v \<and> m n = Some v)) \<and>
             (distinct (map snd fs) \<longrightarrow>
                (\<forall>(k, n) \<in> set fs. \<exists>v. spec_decoded_value dj di F k = Inr v \<and> m n = Some v))"
proof -
  from decode_succeeds[of parse ex fs F dj di, OF assms(2,3)] obtain m
    where m: "decode_serialized_example parse dj ex fs di = Inr m" by blast
  have last: "\<exists>v. spec_decoded_value dj di F k = Inr v \<and> m n = Some v"
    if "last_key_for fs n = Some k" for n k
  proof -
    from that have "(k, n) \<in> set fs" by (rule last_key_for_in_set)
    from well_parsed_value[OF assms(3) this, of dj di] obtain v
      where rk: "recognized k" and v: "spec_decoded_value dj di F k = Inr v" by blast
    from decode_result[of parse dj ex fs di m F n, OF m assms(2)] that have "decode_key dj di F k = Inr (m n)" by simp
    with rk v show ?thesis by (simp add: decode_key_recognized bind_def)
  qed
  have "dom m = snd ` set fs"
  proof (rule set_eqI)
    fix n
    show "n \<in> dom m \<longleftrightarrow> n \<in> snd ` set fs"
    proof (cases "last_key_for fs n")
      case None
      with decode_result[of parse dj ex fs di m F n, OF m assms(2)] have "m n = None" by simp
      with None show ?thesis by (simp add: last_key_for_None domIff)
    next
      case (Some k)
      with last obtain v where "m n = Some v" by blast
      moreover from Some have "n \<in> snd ` set fs" using last_key_for_None[of fs n] by simp
      ultimately show ?thesis by (simp add: domI)
    qed
  qed
  moreover have "\<forall>(k, n) \<in> set fs. \<exists>v. spec_decoded_value dj di F k = Inr v \<and> m n = Some v"
    if "distinct (map snd fs)"
    using that last last_key_for_distinct by blast
  ultimately show ?thesis using m last by blast
qed


lemma graph_parse_two_fields:
  "graph_parse ''record'' (requested_feature_map two_fields) = Inr (graph_features two_fields)"
  by (simp add: graph_parse_def graph_features_def)

lemma graph_features_two_fields:
  "graph_features two_fields ''image/encoded'' = Some (Tensor (Parsed ''image/encoded''))"
  "graph_features two_fields ''image/object/bbox/xmin'' =
     Some (SparseTensor (Indices ''image/object/bbox/xmin'') (Values ''image/object/bbox/xmin'')
            (DenseShape ''image/object/bbox/xmin''))"
  by (simp_all add: graph_features_def requested_feature_map_def two_fields_def schema_def restrict_map_def)

lemma well_parsed_two_fields: "well_parsed (graph_features two_fields) two_fields"
  by (simp add: well_parsed_def graph_features_two_fields) (simp add: two_fields_def schema_def graph_features_two_fields[unfolded two_fields_def])

lemma last_key_for_two_fields:
  "last_key_for two_fields ''image'' = Some ''image/encoded''"
  "last_key_for two_fields ''xmin'' = Some ''image/object/bbox/xmin''"
  by (simp_all add: last_key_for_def two_fields_def)

text \<open>The image bytes and one bounding-box coordinate, under two names.\<close>
theorem requested_names_bound_to_decoded_values_witness:
  "\<exists>m. decode_serialized_example graph_parse DecodeJpeg ''record'' two_fields True = Inr m \<and>
       dom m = {''image'', ''xmin''} \<and>
       m ''image'' = Some (Tensor (DecodeJpeg (Parsed ''image/encoded'') 3)) \<and>
       m ''xmin'' = Some (Tensor (Values ''image/object/bbox/xmin''))"
proof -
  have rec: "list_all (\<lambda>(k, n). recognized k) two_fields"
    using well_parsed_two_fields by (rule well_parsed_recognized)
  from requested_names_bound_to_decoded_values[of two_fields graph_parse "''record''" "graph_features two_fields" DecodeJpeg True,
      OF rec graph_parse_two_fields well_parsed_two_fields]
  obtain m where m: "decode_serialized_example graph_parse DecodeJpeg ''record'' two_fields True = Inr m"
    and d: "dom m = snd ` set two_fields"
    and v: "\<And>n k. last_key_for two_fields n = Some k \<Longrightarrow>
              \<exists>v. spec_decoded_value DecodeJpeg True (graph_features two_fields) k = Inr v \<and> m n = Some v"
    by blast
  from v[OF last_key_for_two_fields(1)]
  have "m ''image'' = Some (Tensor (DecodeJpeg (Parsed ''image/encoded'') 3))"
    by (simp add: spec_decoded_value_def schema_def getitem_def bind_def graph_features_two_fields)
  moreover from v[OF last_key_for_two_fields(2)]
  have "m ''xmin'' = Some (Tensor (Values ''image/object/bbox/xmin''))"
    by (simp add: spec_decoded_value_def schema_def getitem_def bind_def graph_features_two_fields)
  moreover from d have "dom m = {''image'', ''xmin''}" by (simp add: two_fields_def insert_commute)
  ultimately show ?thesis using m by blast
qed

text \<open>
  Two recognized keys requested under one output name: the result has the width under
  that name, and the height, whose decoded value is another tensor, is not in it.
\<close>
theorem repeated_output_name_keeps_last_key:
  "decode_serialized_example graph_parse DecodeJpeg ''record'' same_name_twice True
     = Inr [''x'' \<mapsto> Tensor (Parsed ''image/width'')] \<and>
   spec_decoded_value DecodeJpeg True (graph_features same_name_twice) ''image/height''
     = Inr (Tensor (Parsed ''image/height''))"
  by (simp add: decode_serialized_example_def same_name_twice_def bind_def schema_def graph_parse_def
      decode_key_def getitem_def spec_decoded_value_def graph_features_def requested_feature_map_def
      restrict_map_def)

lemma variable_length_keys_schema:
  "k \<in> set variable_length_keys \<longleftrightarrow> (\<exists>d. map_of schema k = Some (VarLenFeature d))"
  by (auto simp: variable_length_keys_def schema_def split: if_splits)

lemma decode_key_flag:
  "k \<noteq> ''image/encoded'' \<Longrightarrow> decode_key dj True F k = decode_key dj False F k"
  by (simp add: decode_key_def)

lemma well_parsed_varlen:
  "well_parsed F fs \<Longrightarrow> (k, n) \<in> set fs \<Longrightarrow> map_of schema k = Some (VarLenFeature d) \<Longrightarrow>
   \<exists>i v s. F k = Some (SparseTensor i v s)"
  by (auto simp: well_parsed_def list_all_iff split: option.splits tf_value.splits)

lemma well_parsed_fixedlen:
  "well_parsed F fs \<Longrightarrow> (k, n) \<in> set fs \<Longrightarrow> map_of schema k = Some (FixedLenFeature d) \<Longrightarrow>
   \<exists>t. F k = Some (Tensor t)"
  by (auto simp: well_parsed_def list_all_iff split: option.splits tf_value.splits)

text \<open>
  Claim C7. For each of the fourteen variable-length keys the schema entry is a
  variable-length feature, and the value returned under the output name of the key is
  the \<open>values\<close> component of the sparse tensor the parser produced for it, as it is:
  neither the indices nor the dense shape are used.
\<close>
theorem variable_length_key_returns_values:
  assumes "k \<in> set variable_length_keys"
      and "parse ex (requested_feature_map fs) = Inr F"
      and "well_parsed F fs"
      and "last_key_for fs n = Some k"
  shows "\<exists>m d i v s. map_of schema k = Some (VarLenFeature d) \<and>
           decode_serialized_example parse dj ex fs di = Inr m \<and>
           F k = Some (SparseTensor i v s) \<and> m n = Some (Tensor v)"
proof -
  from assms(1) obtain d where d: "map_of schema k = Some (VarLenFeature d)"
    by (auto simp: variable_length_keys_schema)
  from assms(4) have mem: "(k, n) \<in> set fs" by (rule last_key_for_in_set)
  from well_parsed_varlen[OF assms(3) mem d] obtain i v s
    where F: "F k = Some (SparseTensor i v s)" by blast
  from decode_succeeds[of parse ex fs F dj di, OF assms(2,3)] obtain m
    where m: "decode_serialized_example parse dj ex fs di = Inr m" by blast
  from decode_result[of parse dj ex fs di m F n, OF m assms(2)] assms(4)
  have "decode_key dj di F k = Inr (m n)" by simp
  moreover have "recognized k" using d by (simp add: recognized_def)
  ultimately have "m n = Some (Tensor v)"
    using d F by (simp add: decode_key_recognized spec_decoded_value_def getitem_def bind_def)
  with d m F show ?thesis by blast
qed

text \<open>The coordinate \<open>image/object/bbox/xmin\<close> of the two-field request.\<close>
theorem variable_length_key_returns_values_witness:
  "\<exists>m. decode_serialized_example graph_parse DecodeJpeg ''record'' two_fields True = Inr m \<and>
       m ''xmin'' = Some (Tensor (Values ''image/object/bbox/xmin''))"
proof -
  have "''image/object/bbox/xmin'' \<in> set variable_length_keys"
    by (simp add: variable_length_keys_def)
  from variable_length_key_returns_values[of "''image/object/bbox/xmin''" graph_parse "''record''" two_fields
        "graph_features two_fields" "''xmin''" DecodeJpeg True,
      OF this graph_parse_two_fields well_parsed_two_fields last_key_for_two_fields(2)]
  show ?thesis by (auto simp: graph_features_two_fields)
qed

text \<open>
  Claim C8. The call without \<open>decode_image\<close> is the call with \<open>decode_image\<close> true. With
  the flag true the name of \<open>image/encoded\<close> is bound to the image decoder's output on the
  parsed bytes, with the flag false to the parsed bytes themselves; every other output
  name is bound to the same value in both calls.
\<close>
theorem decode_image_controls_image_encoded:
  assumes "parse ex (requested_feature_map fs) = Inr F" and "well_parsed F fs"
  shows "decode_serialized_example_default parse dj ex fs = decode_serialized_example parse dj ex fs True \<and>
         (\<exists>m m'. decode_serialized_example parse dj ex fs True = Inr m \<and>
                  decode_serialized_example parse dj ex fs False = Inr m' \<and>
                  (\<forall>n. last_key_for fs n = Some ''image/encoded'' \<longrightarrow>
                     (\<exists>b. F ''image/encoded'' = Some (Tensor b) \<and>
                          m n = Some (Tensor (dj b 3)) \<and> m' n = Some (Tensor b))) \<and>
                  (\<forall>n. last_key_for fs n \<noteq> Some ''image/encoded'' \<longrightarrow> m n = m' n))"
proof -
  from decode_succeeds[of parse ex fs F dj True, OF assms] obtain m
    where m: "decode_serialized_example parse dj ex fs True = Inr m" by blast
  from decode_succeeds[of parse ex fs F dj False, OF assms] obtain m'
    where m': "decode_serialized_example parse dj ex fs False = Inr m'" by blast
  note r = decode_result[of parse dj ex fs True m F, OF m assms(1)]
  note r' = decode_result[of parse dj ex fs False m' F, OF m' assms(1)]
  have enc: "\<exists>b. F ''image/encoded'' = Some (Tensor b) \<and> m n = Some (Tensor (dj b 3)) \<and> m' n = Some (Tensor b)"
    if l: "last_key_for fs n = Some ''image/encoded''" for n
  proof -
    from l have "(''image/encoded'', n) \<in> set fs" by (rule last_key_for_in_set)
    from well_parsed_fixedlen[OF assms(2) this, of tf_string] obtain b
      where b: "F ''image/encoded'' = Some (Tensor b)" by (auto simp: schema_def)
    from r[of n] l b have "m n = Some (Tensor (dj b 3))"
      by (simp add: decode_key_def getitem_def bind_def)
    moreover from r'[of n] l b have "m' n = Some (Tensor b)"
      by (simp add: decode_key_def getitem_def bind_def)
    ultimately show ?thesis using b by blast
  qed
  have other: "m n = m' n" if l: "last_key_for fs n \<noteq> Some ''image/encoded''" for n
  proof (cases "last_key_for fs n")
    case None
    with r[of n] r'[of n] show ?thesis by simp
  next
    case (Some k)
    with l have "k \<noteq> ''image/encoded''" by simp
    from decode_key_flag[OF this, of dj F] r[of n] r'[of n] Some show ?thesis by simp
  qed
  have "decode_serialized_example_default parse dj ex fs = decode_serialized_example parse dj ex fs True"
    by (simp add: decode_serialized_example_default_def)
  with m m' enc other show ?thesis by blast
qed

text \<open>The two-field request, with the default and with the flag off.\<close>
theorem decode_image_controls_image_encoded_witness:
  "\<exists>m m'. decode_serialized_example_default graph_parse DecodeJpeg ''record'' two_fields = Inr m \<and>
          decode_serialized_example graph_parse DecodeJpeg ''record'' two_fields False = Inr m' \<and>
          m ''image'' = Some (Tensor (DecodeJpeg (Parsed ''image/encoded'') 3)) \<and>
          m' ''image'' = Some (Tensor (Parsed ''image/encoded'')) \<and>
          m ''xmin'' = m' ''xmin''"
proof -
  have ne: "last_key_for two_fields ''xmin'' \<noteq> Some ''image/encoded''"
    by (simp add: last_key_for_two_fields)
  from decode_image_controls_image_encoded[of graph_parse "''record''" two_fields "graph_features two_fields" DecodeJpeg,
      OF graph_parse_two_fields well_parsed_two_fields]
  show ?thesis using last_key_for_two_fields(1) ne
    by (fastforce simp: graph_features_two_fields)
qed

text \<open>
  Claim C5. With decoding on, the name of \<open>image/encoded\<close> is bound to the output of the
  framework's image decoder called with \<open>channels = 3\<close> on the parsed bytes. The decoder
  is not part of the repository; its contract is the hypothesis that a positive
  \<open>channels\<close> argument is the number of channels of its output. Under it the returned
  tensor has three channels, whatever the bytes hold.
\<close>
theorem image_encoded_has_three_channels:
  assumes "\<forall>b c. 0 < c \<longrightarrow> channels (dj b c) = c"
      and "parse ex (requested_feature_map fs) = Inr F"
      and "well_parsed F fs"
      and "last_key_for fs n = Some ''image/encoded''"
  shows "\<exists>m b. decode_serialized_example parse dj ex fs True = Inr m \<and>
               F ''image/encoded'' = Some (Tensor b) \<and>
               m n = Some (Tensor (dj b 3)) \<and> channels (dj b 3) = 3"
proof -
  from assms(4) have "(''image/encoded'', n) \<in> set fs" by (rule last_key_for_in_set)
  from well_parsed_fixedlen[OF assms(3) this, of tf_string] obtain b
    where b: "F ''image/encoded'' = Some (Tensor b)" by (auto simp: schema_def)
  from decode_succeeds[of parse ex fs F dj True, OF assms(2,3)] obtain m
    where m: "decode_serialized_example parse dj ex fs True = Inr m" by blast
  from decode_result[of parse dj ex fs True m F n, OF m assms(2)] assms(4) b
  have "m n = Some (Tensor (dj b 3))"
    by (simp add: decode_key_def getitem_def bind_def)
  moreover from assms(1) have "channels (dj b 3) = 3" by simp
  ultimately show ?thesis using m b by blast
qed

text \<open>The two-field request, with graph nodes for tensors.\<close>
theorem image_encoded_has_three_channels_witness:
  "\<exists>m. decode_serialized_example graph_parse DecodeJpeg ''record'' two_fields True = Inr m \<and>
       m ''image'' = Some (Tensor (DecodeJpeg (Parsed ''image/encoded'') 3)) \<and>
       node_channels (DecodeJpeg (Parsed ''image/encoded'') 3) = 3"
proof -
  have c: "\<forall>b c. 0 < c \<longrightarrow> node_channels (DecodeJpeg b c) = c" by simp
  from image_encoded_has_three_channels[of node_channels DecodeJpeg graph_parse "''record''" two_fields "graph_features two_fields" "''image''",
      OF c graph_parse_two_fields well_parsed_two_fields last_key_for_two_fields(1)]
  show ?thesis by (auto simp: graph_features_two_fields)
qed

section \<open>Properties of the exporter\<close>





lemma export_tflite_step_no_batch:
  "export_tflite args \<Longrightarrow> batch_size args = None \<Longrightarrow> export_tflite_step env args sd log = (r, log') \<Longrightarrow>
   isl r"
  by (auto simp: export_tflite_step_def)




lemma export_serving_locals:
  "export_serving env args ckpt log = (Inr ls, log') \<Longrightarrow> save_dir ls = None"
  by (auto simp: export_serving_def Let_def split: option.splits)


lemma export_graph_scope_serving:
  assumes "export_for_serving args" "export_graph_scope env args = (Inr ls, log')"
  shows "save_dir ls = None"
  using assms export_serving_locals[of env args _ _ ls log']
  by (auto simp: export_graph_scope_def export_model_def Let_def split: option.splits sum.splits)

lemma export_coreml_step_guards:
  assumes "export_coreml args"
  shows "\<not> tfcoreml_importable env \<Longrightarrow> export_coreml_step env args ls log =
           (Inl (ValueError ''Can't import tfcoreml, so we can't create a coreml model.''), log)"
    and "tfcoreml_importable env \<Longrightarrow> batch_size args = None \<Longrightarrow> export_coreml_step env args ls log =
           (Inl (AssertionError ''We need a fixed batch size for the coreml export. (e.g. set --batch_size=1)''), log)"
    and "tfcoreml_importable env \<Longrightarrow> batch_size args \<noteq> None \<Longrightarrow> raveled_input args \<Longrightarrow>
         export_coreml_step env args ls log =
           (Inl (AssertionError ''The input cannot be raveled. CoreML does not support `reshape()`.''), log)"
    and "tfcoreml_importable env \<Longrightarrow> batch_size args \<noteq> None \<Longrightarrow> \<not> raveled_input args \<Longrightarrow>
         save_dir ls = None \<Longrightarrow>
         export_coreml_step env args ls log = (Inl (UnboundLocalError ''save_dir''), log)"
  using assms by (simp_all add: export_coreml_step_def)


lemma export_cases:
  "export_graph_scope env args = (r, log) \<Longrightarrow>
   export env args = (case r of Inl e \<Rightarrow> (Inl e, log) | Inr ls \<Rightarrow> export_coreml_step env args ls log)"
  by (simp add: export_def split: sum.splits)









text \<open>
  Claim C9. When the embedded-platform format is requested and the converter cannot be
  imported, the call always ends with an exception: the one that ended the graph scope,
  or else the \<open>ValueError\<close> of line 353 with its message.
\<close>
theorem coreml_without_converter_fails:
  assumes "export_coreml args" and "\<not> tfcoreml_importable env"
  shows "(\<exists>e. fst (export env args) = Inl e) \<and>
         export env args =
           (case export_graph_scope env args of
              (Inl e, log) \<Rightarrow> (Inl e, log)
            | (Inr ls, log) \<Rightarrow>
                (Inl (ValueError ''Can't import tfcoreml, so we can't create a coreml model.''), log))"
proof -
  obtain r log where g: "export_graph_scope env args = (r, log)"
    by (cases "export_graph_scope env args")
  show ?thesis
  proof (cases r)
    case (Inl e)
    with g export_cases[OF g] show ?thesis by simp
  next
    case (Inr ls)
    with g export_cases[OF g] export_coreml_step_guards(1)[OF assms, of ls log]
    show ?thesis by simp
  qed
qed

text \<open>The embedded-platform format with a batch size of one and no converter installed.\<close>
theorem coreml_without_converter_fails_witness:
  "export (fresh_env\<lparr>tfcoreml_importable := False\<rparr>) (mobile_args\<lparr>export_coreml := True, batch_size := Some 1\<rparr>) =
     (Inl (ValueError ''Can't import tfcoreml, so we can't create a coreml model.''),
      [Makedirs ''export'', LogInfo ''Exporting model: model.ckpt-399739'', Makedirs ''export/1'',
       WriteFile ''export/1/optimized_model.pb''])"
  using coreml_without_converter_fails[of "mobile_args\<lparr>export_coreml := True, batch_size := Some 1\<rparr>" "fresh_env\<lparr>tfcoreml_importable := False\<rparr>"]
  by (simp add: export_graph_scope_def export_model_def initial_log_def fresh_env_def
      mobile_args_def resolve_checkpoint_def export_frozen_def
      export_tflite_step_def path_join_def str_int_def str_nat.simps Let_def)

text \<open>
  Claim C10, as amended. With serving and the embedded-platform format both requested,
  the flag is not ignored: the call always ends with an exception. When the serving
  export completes, the embedded-platform step is entered and fails with the
  \<open>ValueError\<close> of the import, with the assertion on the batch size, with the assertion
  on raveled input, or, when none of the three applies, with the unbound local variable
  \<open>save_dir\<close>, which the serving branch never assigns.
\<close>
theorem serving_with_coreml_fails:
  assumes "export_for_serving args" and "export_coreml args"
  shows "(\<exists>e. fst (export env args) = Inl e) \<and>
         export env args =
           (case export_graph_scope env args of
              (Inl e, log) \<Rightarrow> (Inl e, log)
            | (Inr ls, log) \<Rightarrow> (Inl (coreml_failure env args), log))"
proof -
  obtain r log where g: "export_graph_scope env args = (r, log)"
    by (cases "export_graph_scope env args")
  show ?thesis
  proof (cases r)
    case (Inl e)
    with g export_cases[OF g] show ?thesis by simp
  next
    case (Inr ls)
    with g assms(1) have "save_dir ls = None" by (simp add: export_graph_scope_serving)
    with assms(2) have "export_coreml_step env args ls log = (Inl (coreml_failure env args), log)"
      by (simp add: export_coreml_step_def coreml_failure_def)
    with Inr g export_cases[OF g] show ?thesis by simp
  qed
qed

text \<open>Serving and the embedded-platform format, with a batch size of one.\<close>
theorem serving_with_coreml_fails_witness:
  "export fresh_env (mobile_args\<lparr>export_for_serving := True, export_coreml := True, batch_size := Some 1\<rparr>) =
     (Inl (UnboundLocalError ''save_dir''),
      [Makedirs ''export'', LogInfo ''Exporting model: model.ckpt-399739'', WriteBundle ''export/1''])"
  using serving_with_coreml_fails[of "mobile_args\<lparr>export_for_serving := True, export_coreml := True, batch_size := Some 1\<rparr>" fresh_env]
  by (simp add: export_graph_scope_def export_model_def initial_log_def fresh_env_def coreml_failure_def
      mobile_args_def resolve_checkpoint_def export_serving_def
      path_join_def str_int_def str_nat.simps Let_def)

text \<open>
  Serving and the embedded-platform format with no batch size, the default of the command
  line: the assertion on the batch size fails before \<open>save_dir\<close> is read.
\<close>
theorem serving_with_coreml_without_batch_size_asserts:
  "export fresh_env (mobile_args\<lparr>export_for_serving := True, export_coreml := True\<rparr>) =
     (Inl (AssertionError ''We need a fixed batch size for the coreml export. (e.g. set --batch_size=1)''),
      [Makedirs ''export'', LogInfo ''Exporting model: model.ckpt-399739'', WriteBundle ''export/1''])"
  by (simp add: export_def export_graph_scope_def export_model_def initial_log_def fresh_env_def
      mobile_args_def resolve_checkpoint_def export_serving_def export_coreml_step_def
      path_join_def str_int_def str_nat.simps Let_def)

text \<open>
  The exporter's own path for image bytes: whatever positive number of channels the
  decoded image has, the conditionals of lines 111 to 133 leave three, and height and
  width as they were. A grayscale value fills the three channels, with or without an
  alpha channel beside it; of four or more channels the first three stay.
\<close>

lemma preprocess_image_channels_three:
  assumes "0 < img_channels im"
  shows "img_channels (preprocess_image_channels im) = 3"
    and "img_height (preprocess_image_channels im) = img_height im"
    and "img_width (preprocess_image_channels im) = img_width im"
  using assms by (auto simp: preprocess_image_channels_def grayscale_to_rgb_def first_channel_def
      first_three_channels_def Let_def)

lemma preprocess_image_channels_pixel:
  assumes "c < 3"
  shows "img_pixel (preprocess_image_channels im) y x c =
           (if img_channels im = 1 \<or> img_channels im = 2 then img_pixel im y x 0
            else img_pixel im y x c)"
  using assms by (auto simp: preprocess_image_channels_def grayscale_to_rgb_def first_channel_def
      first_three_channels_def Let_def)

end
